theory Spec2Isabelle
  imports Main "HOL-Library.Word"
begin

section \<open>Common types\<close>

text \<open>
  \<open>crypto.Hash\<close> is \<open>[32]byte\<close>: a 256-bit word, whose zero is the Go zero value
  \<open>crypto.Hash{}\<close>. Byte slices are lists of 8-bit words.
\<close>

type_synonym Hash = "256 word"
type_synonym byte = "8 word"

section \<open>The sector cache of a program (package mdm, sectors)\<close>

text \<open>
  The errors of the cache. \<open>fmt.Errorf\<close> messages keep the values they print, and
  \<open>errors.New\<close> messages are one constructor each.
\<close>

datatype mdm_error =
    ErrAppendLength nat
  | ErrDropTooMany "64 word" nat
  | ErrRootNotFound
  | ErrSwapOutOfBounds "64 word" nat
  | ErrProgramData string
  | ErrHost string

text \<open>
  The engine calls five things that are not part of the sources at hand: the constant
  \<open>modules.SectorSize\<close>, \<open>crypto.MerkleRoot\<close> (the root of one sector's bytes),
  \<open>cachedMerkleRoot\<close> (the root of a list of sector roots), \<open>crypto.MerkleDiffProof\<close>
  (called with the ranges, the number of leaves, \<open>nil\<close> and the roots) and
  \<open>encoding.Marshal\<close> on a list of hashes. They are parameters of the model, collected
  in one record; every theorem below holds for all of them. \<open>crypto.ProofRange\<close> is the
  half-open range \<open>[Start, End)\<close> of leaf indices.
\<close>

record ProofRange =
  Start :: "64 word"
  End :: "64 word"

record externals =
  SectorSize :: "64 word"
  MerkleRoot :: "byte list \<Rightarrow> Hash"
  cachedMerkleRoot :: "Hash list \<Rightarrow> Hash"
  MerkleDiffProof :: "ProofRange list \<Rightarrow> 64 word \<Rightarrow> byte list list \<Rightarrow> Hash list \<Rightarrow> Hash list"
  Marshal :: "Hash list \<Rightarrow> byte list"

record sectors =
  sectorsRemoved :: "Hash set"
  sectorsGained :: "Hash \<rightharpoonup> byte list"
  merkleRoots :: "Hash list"

definition newSectors :: "Hash list \<Rightarrow> sectors" where
  "newSectors roots =
     \<lparr>sectorsRemoved = {}, sectorsGained = Map.empty, merkleRoots = roots\<rparr>"

text \<open>
  \<open>appendSector\<close> mutates the receiver; the model returns the result together with the
  cache after the call. \<open>len(sectorData)\<close> is a Go \<open>int\<close>, so its conversion to
  \<open>uint64\<close> is exact and the comparison is one of natural numbers.
\<close>

definition appendSector ::
  "externals \<Rightarrow> sectors \<Rightarrow> byte list \<Rightarrow> (mdm_error + Hash) \<times> sectors" where
  "appendSector X s sectorData =
     (if length sectorData \<noteq> unat (SectorSize X)
      then (Inl (ErrAppendLength (length sectorData)), s)
      else
        let newRoot = MerkleRoot X sectorData;
            s1 = s\<lparr>sectorsGained := (sectorsGained s)(newRoot \<mapsto> sectorData)\<rparr>;
            s2 = (if newRoot \<in> sectorsRemoved s1
                  then s1\<lparr>sectorsRemoved := sectorsRemoved s1 - {newRoot}\<rparr>
                  else s1);
            s3 = s2\<lparr>merkleRoots := merkleRoots s2 @ [newRoot]\<rparr>
        in (Inr (cachedMerkleRoot X (merkleRoots s3)), s3))"

text \<open>The loop of \<open>dropSectors\<close> over the dropped roots, in their order in the list.\<close>

fun dropLoop :: "Hash list \<Rightarrow> sectors \<Rightarrow> sectors" where
  "dropLoop [] s = s"
| "dropLoop (droppedRoot # rest) s =
     dropLoop rest
       (if sectorsGained s droppedRoot \<noteq> None
        then s\<lparr>sectorsGained := (sectorsGained s)(droppedRoot := None)\<rparr>
        else s\<lparr>sectorsRemoved := insert droppedRoot (sectorsRemoved s)\<rparr>)"

definition dropSectors ::
  "externals \<Rightarrow> sectors \<Rightarrow> 64 word \<Rightarrow> (mdm_error + Hash) \<times> sectors" where
  "dropSectors X s numSectorsDropped =
     (let oldNumSectors = length (merkleRoots s) in
      if unat numSectorsDropped > oldNumSectors
      then (Inl (ErrDropTooMany numSectorsDropped oldNumSectors), s)
      else
        let newNumSectors = oldNumSectors - unat numSectorsDropped;
            droppedRoots = drop newNumSectors (merkleRoots s);
            s1 = s\<lparr>merkleRoots := take newNumSectors (merkleRoots s)\<rparr>;
            s2 = dropLoop droppedRoots s1
        in (Inr (cachedMerkleRoot X (merkleRoots s2)), s2))"

text \<open>\<open>hasSector\<close> scans the roots from the front and returns at the first match.\<close>

fun hasSector_scan :: "Hash list \<Rightarrow> Hash \<Rightarrow> bool" where
  "hasSector_scan [] sectorRoot = False"
| "hasSector_scan (root # rest) sectorRoot =
     (if root = sectorRoot then True else hasSector_scan rest sectorRoot)"

definition hasSector :: "sectors \<Rightarrow> Hash \<Rightarrow> bool" where
  "hasSector s sectorRoot = hasSector_scan (merkleRoots s) sectorRoot"

text \<open>
  \<open>readSector\<close> takes the host as an interface; the model takes its \<open>ReadSector\<close>
  method. The cache is not changed.
\<close>

definition readSector ::
  "(Hash \<Rightarrow> mdm_error + byte list) \<Rightarrow> sectors \<Rightarrow> Hash \<Rightarrow> mdm_error + byte list" where
  "readSector host s sectorRoot =
     (if \<not> hasSector s sectorRoot then Inl ErrRootNotFound
      else case sectorsGained s sectorRoot of
             Some sectorBytes \<Rightarrow> Inr sectorBytes
           | None \<Rightarrow> host sectorRoot)"

text \<open>
  Modelled from the spec: \<open>swapSectors\<close>, which \<open>Execute\<close> of the SwapSector
  instruction calls, is missing from the sources at hand. The spec's words (Sector Cache):
  "swap(i, j): require i, j < len(roots); if i == j no-op; else exchange positions.
  Returns new list root."
\<close>

definition swapSectors ::
  "externals \<Rightarrow> sectors \<Rightarrow> 64 word \<Rightarrow> 64 word \<Rightarrow> (mdm_error + Hash) \<times> sectors" where
  "swapSectors X s idx1 idx2 =
     (let n = length (merkleRoots s) in
      if \<not> unat idx1 < n then (Inl (ErrSwapOutOfBounds idx1 n), s)
      else if \<not> unat idx2 < n then (Inl (ErrSwapOutOfBounds idx2 n), s)
      else if idx1 = idx2 then (Inr (cachedMerkleRoot X (merkleRoots s)), s)
      else
        let roots = merkleRoots s;
            s1 = s\<lparr>merkleRoots :=
                    roots[unat idx1 := roots ! unat idx2, unat idx2 := roots ! unat idx1]\<rparr>
        in (Inr (cachedMerkleRoot X (merkleRoots s1)), s1))"

section \<open>The SwapSector instruction (package mdm)\<close>

text \<open>
  \<open>ProgramData.Uint64\<close> is a stub in the sources (its body is
  \<open>panic("not implemented yet")\<close>), so the program's data buffer is represented by the
  function its \<open>Uint64\<close> method is to compute: from an offset to the value fetched there
  or an error. It is the \<open>staticData\<close> of an instruction, and a parameter of the model.
\<close>

type_synonym ProgramData = "64 word \<Rightarrow> mdm_error + 64 word"

text \<open>
  The instruction with the fields of \<open>commonInstruction\<close> that \<open>Execute\<close> reads.
  \<open>staticState\<close> is a pointer to the program state, whose sector cache the instruction
  changes in place: the model takes the cache as an argument and returns it.
\<close>

record instructionSwapSector =
  staticData :: ProgramData
  staticMerkleProof :: bool
  sector1Offset :: "64 word"
  sector2Offset :: "64 word"

record mdm_output =
  NewSize :: "64 word"
  NewMerkleRoot :: Hash
  Output :: "byte list"
  Proof :: "Hash list"

text \<open>
  The source's type \<open>output\<close> (the name is reserved here). \<open>errOutput(err)\<close> is the
  output that carries only the error: the model returns the error itself. A \<open>nil\<close>
  slice is the empty list.
\<close>

definition Execute ::
  "externals \<Rightarrow> instructionSwapSector \<Rightarrow> sectors \<Rightarrow> mdm_output \<Rightarrow> (mdm_error + mdm_output) \<times> sectors" where
  "Execute X i s prevOutput =
     (case staticData i (sector1Offset i) of
        Inl err \<Rightarrow> (Inl err, s)
      | Inr fetched1 \<Rightarrow>
     (case staticData i (sector2Offset i) of
        Inl err \<Rightarrow> (Inl err, s)
      | Inr fetched2 \<Rightarrow>
     (let offset1 = (if fetched2 < fetched1 then fetched2 else fetched1);
          offset2 = (if fetched2 < fetched1 then fetched1 else fetched2)
      in case swapSectors X s offset1 offset2 of
           (Inl err, s') \<Rightarrow> (Inl err, s')
         | (Inr newMerkleRoot, s') \<Rightarrow>
             (let newRoots = merkleRoots s';
                  oldSector1 = newRoots ! unat offset2;
                  oldSector2 = newRoots ! unat offset1;
                  ranges = [\<lparr>Start = offset1, End = offset1 + 1\<rparr>]
                    @ (if offset1 \<noteq> offset2
                       then [\<lparr>Start = offset2, End = offset2 + 1\<rparr>] else []);
                  oldLeafHashes = [oldSector1]
                    @ (if offset1 \<noteq> offset2 then [oldSector2] else []);
                  proof = (if staticMerkleProof i
                           then MerkleDiffProof X ranges (word_of_nat (length newRoots)) []
                                  (merkleRoots s')
                           else []);
                  data = (if staticMerkleProof i then Marshal X oldLeafHashes else [])
              in (Inr \<lparr>NewSize = NewSize prevOutput, NewMerkleRoot = newMerkleRoot,
                        Output = data, Proof = proof\<rparr>, s')))))"

section \<open>Programs over the cache\<close>

text \<open>
  A run of \<open>appendSector\<close> over a list of sector data, stopping at the first error, and
  the program that appends \<open>k\<close> sectors to a fresh cache and then drops \<open>k\<close>.
\<close>

fun appendMany :: "externals \<Rightarrow> sectors \<Rightarrow> byte list list \<Rightarrow> mdm_error + sectors" where
  "appendMany X s [] = Inr s"
| "appendMany X s (sectorData # rest) =
     (case appendSector X s sectorData of
        (Inl e, _) \<Rightarrow> Inl e
      | (Inr _, s') \<Rightarrow> appendMany X s' rest)"

definition appendThenDrop ::
  "externals \<Rightarrow> Hash list \<Rightarrow> byte list list \<Rightarrow> mdm_error + (Hash \<times> sectors)" where
  "appendThenDrop X base ds =
     (case appendMany X (newSectors base) ds of
        Inl e \<Rightarrow> Inl e
      | Inr s \<Rightarrow>
          (case dropSectors X s (word_of_nat (length ds)) of
             (Inl e, _) \<Rightarrow> Inl e
           | (Inr h, s') \<Rightarrow> Inr (h, s')))"

text \<open>
  The four operations of the cache as one type, and the cache after one of them. A failed
  \<open>appendSector\<close> or \<open>dropSectors\<close> returns before it changes anything; \<open>hasSector\<close>
  and \<open>readSector\<close> only read.
\<close>

datatype cache_op = OpAppend "byte list" | OpDrop "64 word" | OpHas Hash | OpRead Hash

fun applyOp ::
  "externals \<Rightarrow> (Hash \<Rightarrow> mdm_error + byte list) \<Rightarrow> sectors \<Rightarrow> cache_op \<Rightarrow> sectors" where
  "applyOp X host s (OpAppend sectorData) = snd (appendSector X s sectorData)"
| "applyOp X host s (OpDrop n) = snd (dropSectors X s n)"
| "applyOp X host s (OpHas r) = (case hasSector s r of _ \<Rightarrow> s)"
| "applyOp X host s (OpRead r) = (case readSector host s r of _ \<Rightarrow> s)"

definition gained_removed_disjoint :: "sectors \<Rightarrow> bool" where
  "gained_removed_disjoint s = (dom (sectorsGained s) \<inter> sectorsRemoved s = {})"

section \<open>A small instance of the engine's parameters\<close>

text \<open>
  To run the model on concrete inputs the parameters need values. These stand in for the
  hash functions and the encoder: sectors of two bytes, a root that reads the bytes as a
  little-endian number, a list root that folds the roots, a diff proof that lists the
  leaves outside the ranges, and an encoder that keeps the low byte of each hash.
\<close>

fun littleEndian :: "byte list \<Rightarrow> 'a::len word" where
  "littleEndian [] = 0"
| "littleEndian (b # bs) = ucast b + 256 * littleEndian bs"

fun demoCachedMerkleRoot :: "Hash list \<Rightarrow> Hash" where
  "demoCachedMerkleRoot [] = 1"
| "demoCachedMerkleRoot (h # hs) = h + 3 * demoCachedMerkleRoot hs"

fun inRanges :: "ProofRange list \<Rightarrow> nat \<Rightarrow> bool" where
  "inRanges [] k = False"
| "inRanges (r # rs) k = ((unat (Start r) \<le> k \<and> k < unat (End r)) \<or> inRanges rs k)"

fun leavesOutside :: "ProofRange list \<Rightarrow> nat \<Rightarrow> Hash list \<Rightarrow> Hash list" where
  "leavesOutside ranges k [] = []"
| "leavesOutside ranges k (h # hs) =
     (if inRanges ranges k then leavesOutside ranges (Suc k) hs
      else h # leavesOutside ranges (Suc k) hs)"

definition demoX :: externals where
  "demoX = \<lparr>SectorSize = 2, MerkleRoot = littleEndian,
             cachedMerkleRoot = demoCachedMerkleRoot,
             MerkleDiffProof = (\<lambda>ranges numLeaves updated roots. leavesOutside ranges 0 roots),
             Marshal = map ucast\<rparr>"

text \<open>
  Modelled from the spec: a data buffer for concrete runs, since \<open>ProgramData.Uint64\<close> is
  a stub in the sources. The spec's words (Program Data Buffer): "u64_at(offset) returns
  the 8 bytes at offset interpreted little-endian; ... fails if the stream ended before
  reaching offset+8". The buffer holds the whole stream.
\<close>

definition demoData :: "byte list \<Rightarrow> ProgramData" where
  "demoData bytes offset =
     (if unat offset + 8 \<le> length bytes
      then Inr (littleEndian (take 8 (drop (unat offset) bytes)))
      else Inl (ErrProgramData ''stream ended before offset + 8''))"

section \<open>Payments (package host, payment.go)\<close>

subsection \<open>Types of the packages types and modules\<close>

text \<open>
  \<open>types.Currency\<close> is a non-negative big integer, so a natural number. The structs
  below are declared in packages \<open>types\<close> and \<open>modules\<close>; they carry the fields that
  \<open>payment.go\<close> reads or writes, and a record update leaves every other field as it
  was, as the struct copy \<open>rev := recent\<close> does.
\<close>

type_synonym Currency = nat
type_synonym BlockHeight = "64 word"
type_synonym FileContractID = Hash
type_synonym AccountID = string

definition ZeroCurrency :: Currency where
  "ZeroCurrency = 0"

record SiacoinOutput =
  Value :: Currency
  UnlockHash :: Hash

record FileContractRevision =
  ParentID :: FileContractID
  NewRevisionNumber :: "64 word"
  NewFileSize :: "64 word"
  NewFileMerkleRoot :: Hash
  NewWindowStart :: BlockHeight
  NewWindowEnd :: BlockHeight
  NewValidProofOutputs :: "SiacoinOutput list"
  NewMissedProofOutputs :: "SiacoinOutput list"
  NewUnlockHash :: Hash

record CoveredFields =
  cfFileContractRevisions :: "64 word list"

record TransactionSignature =
  tsParentID :: Hash
  tsCoveredFields :: CoveredFields
  tsPublicKeyIndex :: "64 word"
  tsSignature :: "byte list"

record Transaction =
  FileContractRevisions :: "FileContractRevision list"
  TransactionSignatures :: "TransactionSignature list"

record storageObligation =
  RevisionTransactionSet :: "Transaction list"

text \<open>
  Modelled from the spec: the payment kinds \<open>modules.PayByEphemeralAccount\<close> and
  \<open>modules.PayByContract\<close> are constants of a package that is not among the sources. The
  spec's words (Wire): "PaymentRequest{kind u8}; kind in {1: ByEphemeralAccount,
  2: ByContract}".
\<close>

record PaymentRequest =
  Type :: "8 word"

definition PayByEphemeralAccount :: "8 word" where
  "PayByEphemeralAccount = 1"

definition PayByContract :: "8 word" where
  "PayByContract = 2"

record WithdrawalMessage =
  Account :: AccountID
  Expiry :: BlockHeight
  Amount :: Currency
  Nonce :: "64 word"

record PayByEphemeralAccountRequest =
  eaMessage :: WithdrawalMessage
  eaSignature :: "512 word"
  eaPriority :: "64 word"

record PayByContractRequest =
  ContractID :: FileContractID
  reqNewRevisionNumber :: "64 word"
  NewValidProofValues :: "Currency list"
  NewMissedProofValues :: "Currency list"
  reqSignature :: "byte list"

subsection \<open>Errors, panics and outcomes\<close>

text \<open>
  Go errors are values: \<open>errors.AddContext\<close> and \<open>errors.Compose\<close> build them, and
  an error that comes out of a callee outside the sources is \<open>External\<close>. A Go function
  either returns (a value, or an error) or panics; an index out of range carries the
  index and the length.
\<close>

datatype pay_error =
    ErrUnknownPaymentMethod
  | Errorf string "8 word"
  | External string
  | AddContext pay_error string
  | Compose pay_error pay_error

datatype panic = IndexOutOfRange nat nat | NegativeCurrency

datatype 'a outcome = Panic panic | Fail pay_error | Done 'a

subsection \<open>The stream\<close>

text \<open>
  Modelled from the spec: \<open>modules.RPCRead\<close> and \<open>modules.RPCWrite\<close> over a
  \<open>siamux.Stream\<close> are not among the sources. The spec's words (Wire): "every message
  is length-prefixed", followed by the list of messages. A stream holds the objects the
  peer has sent and not yet read, and the objects written to the peer, oldest first.
  Reading takes the next object and fails when there is none or when it is not of the
  type asked for; writing fails when the stream is closed. \<open>ObjRPCError\<close> is an error
  reply.
\<close>

datatype rpc_object =
    ObjPaymentRequest PaymentRequest
  | ObjPayByEphemeralAccountRequest PayByEphemeralAccountRequest
  | ObjPayByContractRequest PayByContractRequest
  | ObjPayByEphemeralAccountResponse Currency
  | ObjPayByContractResponse "byte list"
  | ObjRPCError pay_error

record stream =
  received :: "rpc_object list"
  sent :: "rpc_object list"
  closed :: bool

definition RPCRead :: "(rpc_object \<Rightarrow> 'a option) \<Rightarrow> stream \<Rightarrow> (pay_error + 'a) \<times> stream" where
  "RPCRead decode st =
     (case received st of
        [] \<Rightarrow> (Inl (External ''EOF''), st)
      | obj # rest \<Rightarrow>
          (case decode obj of
             None \<Rightarrow> (Inl (External ''could not decode''), st\<lparr>received := rest\<rparr>)
           | Some x \<Rightarrow> (Inr x, st\<lparr>received := rest\<rparr>)))"

definition RPCWrite :: "stream \<Rightarrow> rpc_object \<Rightarrow> pay_error option \<times> stream" where
  "RPCWrite st obj =
     (if closed st then (Some (External ''stream closed''), st)
      else (None, st\<lparr>sent := sent st @ [obj]\<rparr>))"

fun asPaymentRequest :: "rpc_object \<Rightarrow> PaymentRequest option" where
  "asPaymentRequest (ObjPaymentRequest pr) = Some pr"
| "asPaymentRequest _ = None"

fun asPayByEphemeralAccountRequest :: "rpc_object \<Rightarrow> PayByEphemeralAccountRequest option" where
  "asPayByEphemeralAccountRequest (ObjPayByEphemeralAccountRequest req) = Some req"
| "asPayByEphemeralAccountRequest _ = None"

fun asPayByContractRequest :: "rpc_object \<Rightarrow> PayByContractRequest option" where
  "asPayByContractRequest (ObjPayByContractRequest pbcr) = Some pbcr"
| "asPayByContractRequest _ = None"

subsection \<open>The host and the functions it calls\<close>

text \<open>
  The host's state as far as a payment touches it: the block height, the secret key, the
  storage obligations and the balances of the ephemeral accounts. The lock on a storage
  obligation is taken at the start of \<open>managedPayByContract\<close> and released by a
  \<open>defer\<close> on every way out; the model runs one payment at a time and leaves it out.
\<close>

record Host =
  blockHeight :: BlockHeight
  secretKey :: "byte list"
  storageObligations :: "FileContractID \<rightharpoonup> storageObligation"
  accountBalances :: "AccountID \<rightharpoonup> Currency"

text \<open>
  The functions \<open>payment.go\<close> calls that are not among the sources are parameters of
  the model, collected in one record; every theorem holds for all of them. The two that
  change the host return the host after the call along with their error.
\<close>

record host_externals =
  callWithdraw ::
    "Host \<Rightarrow> WithdrawalMessage \<Rightarrow> 512 word \<Rightarrow> 64 word \<Rightarrow> pay_error option \<times> Host"
  managedGetStorageObligation :: "Host \<Rightarrow> FileContractID \<Rightarrow> pay_error + storageObligation"
  recentRevision :: "storageObligation \<Rightarrow> pay_error + FileContractRevision"
  verifyPaymentRevision ::
    "FileContractRevision \<Rightarrow> FileContractRevision \<Rightarrow> BlockHeight \<Rightarrow> Currency \<Rightarrow> pay_error option"
  createRevisionSignature ::
    "FileContractRevision \<Rightarrow> TransactionSignature \<Rightarrow> byte list \<Rightarrow> BlockHeight
       \<Rightarrow> pay_error + Transaction"
  HostSignature :: "Transaction \<Rightarrow> TransactionSignature"
  managedModifyStorageObligation :: "Host \<Rightarrow> storageObligation \<Rightarrow> pay_error option \<times> Host"

text \<open>
  Modelled from the spec: the accessors of \<open>types.FileContractRevision\<close> and
  \<open>types.Currency.Sub\<close> are not among the sources. The spec's second scenario lists the
  outputs in their order: "new_valid_values=[1_500 (renter), 1_500 (host)],
  new_missed_values=[500 (renter), 300 (host), 300 (void)]", so the host's output is the
  one at index 1; indexing a shorter list panics, as Go does. The spec's verifier fails
  on "underflow on any subtraction", and the comment in \<open>verifyPayByContractRevision\<close>
  says a subtraction is safe only once underflow is excluded: \<open>Sub\<close> does not return on
  underflow.
\<close>

definition index :: "'a list \<Rightarrow> nat \<Rightarrow> panic + 'a" where
  "index xs i = (if i < length xs then Inr (xs ! i) else Inl (IndexOutOfRange i (length xs)))"

definition ValidHostPayout :: "FileContractRevision \<Rightarrow> panic + Currency" where
  "ValidHostPayout fcr = map_sum id Value (index (NewValidProofOutputs fcr) 1)"

definition MissedHostOutput :: "FileContractRevision \<Rightarrow> panic + SiacoinOutput" where
  "MissedHostOutput fcr = index (NewMissedProofOutputs fcr) 1"

definition Sub :: "Currency \<Rightarrow> Currency \<Rightarrow> panic + Currency" where
  "Sub x y = (if x < y then Inl NegativeCurrency else Inr (x - y))"

subsection \<open>payment.go\<close>

record paymentDetails =
  account :: AccountID
  amount :: Currency
  addedCollateral :: Currency

definition newPaymentDetails :: "AccountID \<Rightarrow> Currency \<Rightarrow> Currency \<Rightarrow> paymentDetails" where
  "newPaymentDetails acc amountPaid collateral =
     \<lparr>account = acc, amount = amountPaid, addedCollateral = collateral\<rparr>"

text \<open>
  The two loops of \<open>revisionFromRequest\<close>. Each allocates a slice as long as the
  request's values and fills it index by index, reading the recent revision's output at
  the same index: the read panics at the first index the recent list does not have.
\<close>

fun outputsLoop ::
  "SiacoinOutput list \<Rightarrow> Currency list \<Rightarrow> nat \<Rightarrow> SiacoinOutput list
     \<Rightarrow> panic + SiacoinOutput list" where
  "outputsLoop recentOutputs [] i outs = Inr outs"
| "outputsLoop recentOutputs (v # vs) i outs =
     (if i < length recentOutputs
      then outputsLoop recentOutputs vs (Suc i)
             (outs[i := \<lparr>Value = v, UnlockHash = UnlockHash (recentOutputs ! i)\<rparr>])
      else Inl (IndexOutOfRange i (length recentOutputs)))"

text \<open>The output the loop writes for a value: the value, with the recent output's hash.\<close>

definition decorate :: "Currency \<Rightarrow> SiacoinOutput \<Rightarrow> SiacoinOutput" where
  "decorate v recentOutput = \<lparr>Value = v, UnlockHash = UnlockHash recentOutput\<rparr>"

definition makeOutputs :: "nat \<Rightarrow> SiacoinOutput list" where
  "makeOutputs n = replicate n \<lparr>Value = 0, UnlockHash = 0\<rparr>"

definition revisionFromRequest ::
  "FileContractRevision \<Rightarrow> PayByContractRequest \<Rightarrow> panic + FileContractRevision" where
  "revisionFromRequest recent pbcr =
     (case outputsLoop (NewValidProofOutputs recent) (NewValidProofValues pbcr) 0
             (makeOutputs (length (NewValidProofValues pbcr))) of
        Inl p \<Rightarrow> Inl p
      | Inr valid \<Rightarrow>
          (case outputsLoop (NewMissedProofOutputs recent) (NewMissedProofValues pbcr) 0
                  (makeOutputs (length (NewMissedProofValues pbcr))) of
             Inl p \<Rightarrow> Inl p
           | Inr missed \<Rightarrow>
               Inr (recent\<lparr>NewRevisionNumber := reqNewRevisionNumber pbcr,
                           NewValidProofOutputs := valid,
                           NewMissedProofOutputs := missed\<rparr>)))"

definition signatureFromRequest ::
  "FileContractRevision \<Rightarrow> PayByContractRequest \<Rightarrow> TransactionSignature" where
  "signatureFromRequest recent pbcr =
     \<lparr>tsParentID = ParentID recent,
      tsCoveredFields = \<lparr>cfFileContractRevisions = [0]\<rparr>,
      tsPublicKeyIndex = 0,
      tsSignature = reqSignature pbcr\<rparr>"

definition verifyPayByContractRevision ::
  "host_externals \<Rightarrow> FileContractRevision \<Rightarrow> FileContractRevision \<Rightarrow> BlockHeight
     \<Rightarrow> (Currency \<times> Currency) outcome" where
  "verifyPayByContractRevision D current payment bh =
     (case verifyPaymentRevision D current payment bh ZeroCurrency of
        Some err \<Rightarrow> Fail err
      | None \<Rightarrow>
     (case ValidHostPayout payment of Inl p \<Rightarrow> Panic p | Inr paymentPayout \<Rightarrow>
     (case ValidHostPayout current of Inl p \<Rightarrow> Panic p | Inr currentPayout \<Rightarrow>
     (case Sub paymentPayout currentPayout of Inl p \<Rightarrow> Panic p | Inr amountPaid \<Rightarrow>
     (case MissedHostOutput current of Inl p \<Rightarrow> Panic p | Inr currentMissed \<Rightarrow>
     (case MissedHostOutput payment of Inl p \<Rightarrow> Panic p | Inr paymentMissed \<Rightarrow>
     (case Sub (Value currentMissed) (Value paymentMissed) of
        Inl p \<Rightarrow> Panic p
      | Inr collateral \<Rightarrow> Done (amountPaid, collateral))))))))"

text \<open>\<open>copy(sig[:], ...)\<close> into a \<open>[64]byte\<close>: the first 64 bytes, padded with zeros.\<close>

definition copySignature :: "byte list \<Rightarrow> byte list" where
  "copySignature src = take 64 src @ replicate (64 - length src) 0"

definition staticPayByEphemeralAccount ::
  "host_externals \<Rightarrow> Host \<Rightarrow> stream \<Rightarrow> paymentDetails outcome \<times> Host \<times> stream" where
  "staticPayByEphemeralAccount D h st =
     (case RPCRead asPayByEphemeralAccountRequest st of
        (Inl err, st1) \<Rightarrow>
          (Fail (AddContext err ''Could not read PayByEphemeralAccountRequest''), h, st1)
      | (Inr req, st1) \<Rightarrow>
     (case callWithdraw D h (eaMessage req) (eaSignature req) (eaPriority req) of
        (Some err, h1) \<Rightarrow> (Fail (AddContext err ''Withdraw failed''), h1, st1)
      | (None, h1) \<Rightarrow>
     (case RPCWrite st1 (ObjPayByEphemeralAccountResponse (Amount (eaMessage req))) of
        (Some err, st2) \<Rightarrow>
          (Fail (AddContext err ''Could not send PayByEphemeralAccountResponse''), h1, st2)
      | (None, st2) \<Rightarrow>
          (Done (newPaymentDetails (Account (eaMessage req)) (Amount (eaMessage req))
                   ZeroCurrency), h1, st2))))"

definition managedPayByContract ::
  "host_externals \<Rightarrow> Host \<Rightarrow> stream \<Rightarrow> paymentDetails outcome \<times> Host \<times> stream" where
  "managedPayByContract D h st =
     (case RPCRead asPayByContractRequest st of
        (Inl err, st1) \<Rightarrow> (Fail (AddContext err ''Could not read PayByContractRequest''), h, st1)
      | (Inr pbcr, st1) \<Rightarrow>
     (case managedGetStorageObligation D h (ContractID pbcr) of
        Inl err \<Rightarrow> (Fail (AddContext err ''Could not fetch storage obligation''), h, st1)
      | Inr so \<Rightarrow>
     (case recentRevision D so of
        Inl err \<Rightarrow> (Fail (AddContext err ''Could not find the most recent revision''), h, st1)
      | Inr currentRevision \<Rightarrow>
     (case revisionFromRequest currentRevision pbcr of
        Inl p \<Rightarrow> (Panic p, h, st1)
      | Inr paymentRevision \<Rightarrow>
     (case verifyPayByContractRevision D currentRevision paymentRevision (blockHeight h) of
        Panic p \<Rightarrow> (Panic p, h, st1)
      | Fail err \<Rightarrow> (Fail (AddContext err ''Invalid payment revision''), h, st1)
      | Done (amountPaid, collateral) \<Rightarrow>
     (let renterSignature = signatureFromRequest currentRevision pbcr in
      case createRevisionSignature D paymentRevision renterSignature (secretKey h)
             (blockHeight h) of
        Inl err \<Rightarrow> (Fail (AddContext err ''Could not create revision signature''), h, st1)
      | Inr txn \<Rightarrow>
     (case index (TransactionSignatures txn) 1 of
        Inl p \<Rightarrow> (Panic p, h, st1)
      | Inr hostSignature \<Rightarrow>
     (let so1 = so\<lparr>RevisionTransactionSet :=
                    [\<lparr>FileContractRevisions = [paymentRevision],
                      TransactionSignatures = [renterSignature, hostSignature]\<rparr>]\<rparr>
      in case managedModifyStorageObligation D h so1 of
        (Some err, h1) \<Rightarrow>
          (Fail (AddContext err ''Could not modify storage obligation''), h1, st1)
      | (None, h1) \<Rightarrow>
     (case RPCWrite st1
             (ObjPayByContractResponse (copySignature (tsSignature (HostSignature D txn)))) of
        (Some err, st2) \<Rightarrow>
          (Fail (AddContext err ''Could not send PayByContractResponse''), h1, st2)
      | (None, st2) \<Rightarrow> (Done (newPaymentDetails '''' amountPaid collateral), h1, st2))))))))))"

definition ProcessPayment ::
  "host_externals \<Rightarrow> Host \<Rightarrow> stream \<Rightarrow> paymentDetails outcome \<times> Host \<times> stream" where
  "ProcessPayment D h st =
     (case RPCRead asPaymentRequest st of
        (Inl err, st1) \<Rightarrow> (Fail (AddContext err ''Could not read payment request''), h, st1)
      | (Inr pr, st1) \<Rightarrow>
          if Type pr = PayByEphemeralAccount then staticPayByEphemeralAccount D h st1
          else if Type pr = PayByContract then managedPayByContract D h st1
          else (Fail (Compose (Errorf ''Could not handle payment method %v'' (Type pr))
                        ErrUnknownPaymentMethod), h, st1))"

section \<open>A small instance of the host's parameters\<close>

text \<open>
  Values for the host's parameters, to run payments on concrete inputs: a withdrawal
  that debits the account's balance, obligations looked up in the host's map, the most
  recent revision as the first revision of the last transaction of the set, a verifier
  that only asks for a higher revision number, a signer that puts the secret key where
  the host's signature goes, and a store that files an obligation under the contract of
  its first revision.
\<close>

definition demoWithdraw ::
  "Host \<Rightarrow> WithdrawalMessage \<Rightarrow> 512 word \<Rightarrow> 64 word \<Rightarrow> pay_error option \<times> Host" where
  "demoWithdraw h msg sig priority =
     (case accountBalances h (Account msg) of
        None \<Rightarrow> (Some (External ''unknown account''), h)
      | Some bal \<Rightarrow>
          if bal < Amount msg then (Some (External ''balance insufficient''), h)
          else (None, h\<lparr>accountBalances :=
                          (accountBalances h)(Account msg \<mapsto> bal - Amount msg)\<rparr>))"

definition demoGetStorageObligation :: "Host \<Rightarrow> FileContractID \<Rightarrow> pay_error + storageObligation" where
  "demoGetStorageObligation h fcid =
     (case storageObligations h fcid of
        None \<Rightarrow> Inl (External ''no record of that file contract'')
      | Some so \<Rightarrow> Inr so)"

fun lastRevision :: "Transaction list \<Rightarrow> pay_error + FileContractRevision" where
  "lastRevision [] = Inl (External ''there are no revisions in the set'')"
| "lastRevision [txn] =
     (case FileContractRevisions txn of
        [] \<Rightarrow> Inl (External ''the transaction has no revision'')
      | fcr # _ \<Rightarrow> Inr fcr)"
| "lastRevision (txn # rest) = lastRevision rest"

definition demoVerify ::
  "FileContractRevision \<Rightarrow> FileContractRevision \<Rightarrow> BlockHeight \<Rightarrow> Currency \<Rightarrow> pay_error option" where
  "demoVerify current payment bh expected =
     (if NewRevisionNumber payment \<le> NewRevisionNumber current
      then Some (External ''bad revision number'') else None)"

definition demoSign ::
  "FileContractRevision \<Rightarrow> TransactionSignature \<Rightarrow> byte list \<Rightarrow> BlockHeight
     \<Rightarrow> pay_error + Transaction" where
  "demoSign fcr renterSignature sk bh =
     Inr \<lparr>FileContractRevisions = [fcr],
          TransactionSignatures =
            [renterSignature,
             \<lparr>tsParentID = ParentID fcr, tsCoveredFields = \<lparr>cfFileContractRevisions = [0]\<rparr>,
              tsPublicKeyIndex = 1, tsSignature = sk\<rparr>]\<rparr>"

fun demoHostSignature :: "Transaction \<Rightarrow> TransactionSignature" where
  "demoHostSignature txn =
     (case TransactionSignatures txn of
        _ # hostSig # _ \<Rightarrow> hostSig
      | _ \<Rightarrow> \<lparr>tsParentID = 0, tsCoveredFields = \<lparr>cfFileContractRevisions = []\<rparr>,
              tsPublicKeyIndex = 0, tsSignature = []\<rparr>)"

definition demoModify :: "Host \<Rightarrow> storageObligation \<Rightarrow> pay_error option \<times> Host" where
  "demoModify h so =
     (case lastRevision (RevisionTransactionSet so) of
        Inl err \<Rightarrow> (Some err, h)
      | Inr fcr \<Rightarrow> (None, h\<lparr>storageObligations := (storageObligations h)(ParentID fcr \<mapsto> so)\<rparr>))"

definition demoD :: host_externals where
  "demoD = \<lparr>callWithdraw = demoWithdraw,
             managedGetStorageObligation = demoGetStorageObligation,
             recentRevision = (\<lambda>so. lastRevision (RevisionTransactionSet so)),
             verifyPaymentRevision = demoVerify,
             createRevisionSignature = demoSign,
             HostSignature = demoHostSignature,
             managedModifyStorageObligation = demoModify\<rparr>"

text \<open>
  The spec's second scenario: the current revision has number 7, pays the renter 2000
  and the host 1000 when the proof is valid, and gives the host 500 and the void 100
  when it is missed. The request has number 8, valid values 1500 and 1500, and missed
  values 500, 300 and 300.
\<close>

definition demoCurrent :: FileContractRevision where
  "demoCurrent =
     \<lparr>ParentID = 42, NewRevisionNumber = 7, NewFileSize = 0, NewFileMerkleRoot = 0,
      NewWindowStart = 100, NewWindowEnd = 200,
      NewValidProofOutputs = [\<lparr>Value = 2000, UnlockHash = 11\<rparr>, \<lparr>Value = 1000, UnlockHash = 12\<rparr>],
      NewMissedProofOutputs = [\<lparr>Value = 500, UnlockHash = 11\<rparr>, \<lparr>Value = 500, UnlockHash = 12\<rparr>,
                               \<lparr>Value = 100, UnlockHash = 0\<rparr>],
      NewUnlockHash = 5\<rparr>"

definition demoHost :: Host where
  "demoHost =
     \<lparr>blockHeight = 50, secretKey = [9],
      storageObligations =
        [42 \<mapsto> \<lparr>RevisionTransactionSet =
                   [\<lparr>FileContractRevisions = [demoCurrent], TransactionSignatures = []\<rparr>]\<rparr>],
      accountBalances = Map.empty\<rparr>"

definition demoRequest :: PayByContractRequest where
  "demoRequest =
     \<lparr>ContractID = 42, reqNewRevisionNumber = 8, NewValidProofValues = [1500, 1500],
      NewMissedProofValues = [500, 300, 300], reqSignature = [7]\<rparr>"

definition demoPayment :: FileContractRevision where
  "demoPayment =
     demoCurrent\<lparr>NewRevisionNumber := 8,
       NewValidProofOutputs := [\<lparr>Value = 1500, UnlockHash = 11\<rparr>, \<lparr>Value = 1500, UnlockHash = 12\<rparr>],
       NewMissedProofOutputs := [\<lparr>Value = 500, UnlockHash = 11\<rparr>, \<lparr>Value = 300, UnlockHash = 12\<rparr>,
                                 \<lparr>Value = 300, UnlockHash = 0\<rparr>]\<rparr>"

definition demoStream :: "rpc_object list \<Rightarrow> stream" where
  "demoStream objs = \<lparr>received = objs, sent = [], closed = False\<rparr>"

section \<open>Creating a skylink from a file node (package renter, skyfile.go)\<close>

subsection \<open>Errors\<close>

text \<open>
  The renter's error values. A context is a string; the one context built with
  \<open>fmt.Sprintf\<close> keeps the three numbers it prints. \<open>errors.AddContext\<close> of \<open>nil\<close>
  is \<open>nil\<close>, and \<open>errors.Compose\<close> keeps the errors that are not \<open>nil\<close> and is
  \<open>nil\<close> when there is none.
\<close>

datatype sky_context = Ctx string | CtxDoesNotFit "64 word" nat nat

datatype sky_error =
    ErrInvalidMetadata
  | ErrMetadataTooBig
  | ErrSkylinkBlocked
  | ErrorsNew string
  | SkyExternal string
  | SkyAddContext sky_error sky_context
  | SkyCompose "sky_error list"


fun nonNil :: "sky_error option list \<Rightarrow> sky_error list" where
  "nonNil [] = []"
| "nonNil (None # errs) = nonNil errs"
| "nonNil (Some e # errs) = e # nonNil errs"

definition compose :: "sky_error option list \<Rightarrow> sky_error option" where
  "compose errs = (case nonNil errs of [] \<Rightarrow> None | es \<Rightarrow> Some (SkyCompose es))"

subsection \<open>Types\<close>



record SkyfileMetadata =
  Filename :: string
  Mode :: "32 word"
  Length :: "64 word"







subsection \<open>skyfile.go\<close>






text \<open>
  The error of the size check: \<open>ErrMetadataTooBig\<close> under the context that prints the
  sizes. No other return of the function has this form.
\<close>

definition isMetadataTooBig :: "sky_error option \<Rightarrow> bool" where
  "isMetadataTooBig err =
     (case err of
        Some (SkyAddContext ErrMetadataTooBig (CtxDoesNotFit n m f)) \<Rightarrow> True
      | _ \<Rightarrow> False)"


section \<open>Blocks and the miner's block template (package types, block.go)\<close>

text \<open>
  A block and the template made from it, with the fields of the source (the two structs
  share field names, so the fields of each carry a prefix). A \<open>nil\<close> slice is the
  empty list and a zero value is 0.
\<close>

record Block =
  blkParentID :: Hash
  blkNonce :: "64 word"
  blkTimestamp :: "64 word"
  MinerPayouts :: "SiacoinOutput list"
  Transactions :: "Transaction list"

record BlockTemplate =
  tplParentID :: Hash
  tplNonce :: "64 word"
  tplTimestamp :: "64 word"
  tplMinerPayouts :: "SiacoinOutput list"
  tplTransactions :: "Hash list"
  Target :: Hash
  MerkleBranches :: "string list"
  Height :: BlockHeight

text \<open>
  What \<open>block.go\<close> takes from elsewhere: the id of a transaction, the encodings of a
  payout and of a transaction, and the two hashes of the Merkle tree (of a leaf, and of
  two subtrees).
\<close>

record block_externals =
  txnID :: "Transaction \<Rightarrow> Hash"
  marshalSiacoinOutput :: "SiacoinOutput \<Rightarrow> byte list"
  marshalTransaction :: "Transaction \<Rightarrow> byte list"
  leafSum :: "byte list \<Rightarrow> byte list"
  nodeSum :: "byte list \<Rightarrow> byte list \<Rightarrow> byte list"

text \<open>
  \<open>MerkleBranches\<close> declares the tree's struct again to read its \<open>head\<close>: a linked
  list of subtrees, each with a height and a sum; the list here is that linked list,
  head first. \<open>Push\<close> puts a subtree of height 0 at the head and then joins the two
  subtrees at the head for as long as they have the same height, the older one on the
  left.
\<close>

record SubTree =
  stHeight :: nat
  stSum :: "byte list"

fun joinAllSubTrees :: "block_externals \<Rightarrow> SubTree list \<Rightarrow> SubTree list" where
  "joinAllSubTrees B (a # b # rest) =
     (if stHeight a = stHeight b
      then joinAllSubTrees B
             (\<lparr>stHeight = stHeight b + 1, stSum = nodeSum B (stSum b) (stSum a)\<rparr> # rest)
      else a # b # rest)"
| "joinAllSubTrees B t = t"

definition Push :: "block_externals \<Rightarrow> SubTree list \<Rightarrow> byte list \<Rightarrow> SubTree list" where
  "Push B t leafData = joinAllSubTrees B (\<lparr>stHeight = 0, stSum = leafSum B leafData\<rparr> # t)"

text \<open>\<open>hex.EncodeToString\<close>: two lower-case digits for each byte.\<close>

definition hexDigit :: "nat \<Rightarrow> char" where
  "hexDigit n = ''0123456789abcdef'' ! n"

fun EncodeToString :: "byte list \<Rightarrow> string" where
  "EncodeToString [] = []"
| "EncodeToString (b # bs) =
     hexDigit (unat b div 16) # hexDigit (unat b mod 16) # EncodeToString bs"

text \<open>
  The method \<open>MerkleBranches\<close> of a block: the payouts, then the transactions, are
  pushed on a new tree, and the sums of the subtrees that remain are encoded from the
  head on.
\<close>

definition Block_MerkleBranches :: "block_externals \<Rightarrow> Block \<Rightarrow> string list" where
  "Block_MerkleBranches B b =
     (let mbranch = foldl (Push B) []
            (map (marshalSiacoinOutput B) (MinerPayouts b)
               @ map (marshalTransaction B) (Transactions b))
      in map (\<lambda>st. EncodeToString (stSum st)) mbranch)"

text \<open>
  The method \<open>BlockTemplate\<close> of a block. The line that would set \<open>MerkleBranches\<close>
  is a comment in the source, so the field, like \<open>Target\<close> and \<open>Height\<close>, keeps its
  zero value.
\<close>

definition Block_BlockTemplate :: "block_externals \<Rightarrow> Block \<Rightarrow> BlockTemplate" where
  "Block_BlockTemplate B b =
     \<lparr>tplParentID = blkParentID b,
      tplNonce = blkNonce b,
      tplTimestamp = blkTimestamp b,
      tplMinerPayouts = MinerPayouts b,
      tplTransactions = map (txnID B) (Transactions b),
      Target = 0,
      MerkleBranches = [],
      Height = 0\<rparr>"

section \<open>Small instances of the renter's and the block's parameters\<close>







definition demoSmallMetadata :: SkyfileMetadata where
  "demoSmallMetadata = \<lparr>Filename = ''a.txt'', Mode = 420, Length = 5\<rparr>"


text \<open>
  For the block: transaction ids and encodings that only count, a leaf sum that keeps the
  data, and a node sum that concatenates.
\<close>

definition demoB :: block_externals where
  "demoB =
     \<lparr>txnID = (\<lambda>txn. word_of_nat (length (TransactionSignatures txn))),
      marshalSiacoinOutput = (\<lambda>payout. [word_of_nat (Value payout)]),
      marshalTransaction = (\<lambda>txn. [word_of_nat (length (FileContractRevisions txn))]),
      leafSum = (\<lambda>leafData. leafData),
      nodeSum = (\<lambda>left right. left @ right)\<rparr>"

definition demoBlock :: Block where
  "demoBlock =
     \<lparr>blkParentID = 1, blkNonce = 2, blkTimestamp = 3,
      MinerPayouts = [\<lparr>Value = 171, UnlockHash = 12\<rparr>],
      Transactions = []\<rparr>"

section \<open>Properties of the sector cache\<close>

subsection \<open>appendSector\<close>

text \<open>
  Claim C4. \<open>appendSector\<close> fails exactly when the length of the data differs from
  \<open>SectorSize\<close>, and a failed call leaves the cache as it was. A successful call
  appends the root of the data to \<open>merkleRoots\<close>, stores the data in \<open>sectorsGained\<close>
  under that root, takes the root out of \<open>sectorsRemoved\<close>, and returns the Merkle
  root of the new list of roots.
\<close>

theorem appendSector_contract:
  "(isl (fst (appendSector X s d)) \<longleftrightarrow> length d \<noteq> unat (SectorSize X)) \<and>
   (isl (fst (appendSector X s d)) \<longrightarrow> snd (appendSector X s d) = s) \<and>
   (\<not> isl (fst (appendSector X s d)) \<longrightarrow>
      appendSector X s d =
        (Inr (cachedMerkleRoot X (merkleRoots s @ [MerkleRoot X d])),
         s\<lparr>sectorsRemoved := sectorsRemoved s - {MerkleRoot X d},
           sectorsGained := (sectorsGained s)(MerkleRoot X d \<mapsto> d),
           merkleRoots := merkleRoots s @ [MerkleRoot X d]\<rparr>))"
  by (auto simp: appendSector_def Let_def)

theorem appendSector_contract_witness:
  "appendSector demoX (newSectors [7]) [1] = (Inl (ErrAppendLength 1), newSectors [7]) \<and>
   appendSector demoX
       \<lparr>sectorsRemoved = {513, 9}, sectorsGained = Map.empty, merkleRoots = [7]\<rparr> [1, 2] =
     (Inr 1555, \<lparr>sectorsRemoved = {9}, sectorsGained = [513 \<mapsto> [1, 2]],
                merkleRoots = [7, 513]\<rparr>)"
  using appendSector_contract [of demoX "newSectors [7]" "[1]"]
    appendSector_contract [of demoX
      "\<lparr>sectorsRemoved = {513, 9}, sectorsGained = Map.empty, merkleRoots = [7]\<rparr>" "[1, 2]"]
  by (auto simp: demoX_def appendSector_def newSectors_def)

subsection \<open>Gained and removed sectors are disjoint\<close>

lemma appendSector_disjoint:
  "gained_removed_disjoint s \<Longrightarrow> gained_removed_disjoint (snd (appendSector X s d))"
  by (auto simp: gained_removed_disjoint_def appendSector_def Let_def)

lemma dropLoop_disjoint:
  "gained_removed_disjoint s \<Longrightarrow> gained_removed_disjoint (dropLoop rs s)"
proof (induction rs arbitrary: s)
  case Nil
  then show ?case by simp
next
  case (Cons r rs)
  have "gained_removed_disjoint
          (if sectorsGained s r \<noteq> None
           then s\<lparr>sectorsGained := (sectorsGained s)(r := None)\<rparr>
           else s\<lparr>sectorsRemoved := insert r (sectorsRemoved s)\<rparr>)"
    using Cons.prems by (auto simp: gained_removed_disjoint_def)
  then show ?case using Cons.IH by simp
qed

lemma dropSectors_disjoint:
  "gained_removed_disjoint s \<Longrightarrow> gained_removed_disjoint (snd (dropSectors X s n))"
proof -
  assume a: "gained_removed_disjoint s"
  have "gained_removed_disjoint (s\<lparr>merkleRoots := ys\<rparr>)" for ys
    using a by (simp add: gained_removed_disjoint_def)
  then show ?thesis
    using a by (simp add: dropSectors_def Let_def dropLoop_disjoint)
qed

lemma applyOp_disjoint:
  "gained_removed_disjoint s \<Longrightarrow> gained_removed_disjoint (applyOp X host s c)"
  by (cases c) (simp_all add: appendSector_disjoint dropSectors_disjoint)

lemma foldl_applyOp_disjoint:
  "gained_removed_disjoint s \<Longrightarrow> gained_removed_disjoint (foldl (applyOp X host) s ops)"
  by (induction ops arbitrary: s) (simp_all add: applyOp_disjoint)

text \<open>
  Claim C9. In every cache reached from \<open>newSectors\<close> by a sequence of
  \<open>appendSector\<close>, \<open>dropSectors\<close>, \<open>hasSector\<close> and \<open>readSector\<close> calls (each
  with any argument, failing or not), no root is both a key of \<open>sectorsGained\<close> and a
  member of \<open>sectorsRemoved\<close>.
\<close>

theorem gained_removed_stay_disjoint:
  "dom (sectorsGained (foldl (applyOp X host) (newSectors roots) ops))
     \<inter> sectorsRemoved (foldl (applyOp X host) (newSectors roots) ops) = {}"
proof -
  have "gained_removed_disjoint (newSectors roots)"
    by (simp add: gained_removed_disjoint_def newSectors_def)
  then have "gained_removed_disjoint (foldl (applyOp X host) (newSectors roots) ops)"
    by (rule foldl_applyOp_disjoint)
  then show ?thesis by (simp add: gained_removed_disjoint_def)
qed

theorem gained_removed_stay_disjoint_witness:
  "dom (sectorsGained (foldl (applyOp demoX (\<lambda>r. Inl ErrRootNotFound)) (newSectors [7])
          [OpAppend [1, 2], OpDrop 2, OpAppend [3, 4], OpHas 7, OpRead 7]))
   \<inter> sectorsRemoved (foldl (applyOp demoX (\<lambda>r. Inl ErrRootNotFound)) (newSectors [7])
          [OpAppend [1, 2], OpDrop 2, OpAppend [3, 4], OpHas 7, OpRead 7]) = {} \<and>
   foldl (applyOp demoX (\<lambda>r. Inl ErrRootNotFound)) (newSectors [7])
          [OpAppend [1, 2], OpDrop 2, OpAppend [3, 4], OpHas 7, OpRead 7]
     = \<lparr>sectorsRemoved = {7}, sectorsGained = [1027 \<mapsto> [3, 4]], merkleRoots = [1027]\<rparr>"
  using gained_removed_stay_disjoint [of demoX "\<lambda>r. Inl ErrRootNotFound" "[7]"
      "[OpAppend [1, 2], OpDrop 2, OpAppend [3, 4], OpHas 7, OpRead 7]"]
  by (simp add: demoX_def appendSector_def dropSectors_def newSectors_def Let_def)

subsection \<open>Appending k sectors and dropping k\<close>

lemma appendMany_ok:
  "\<forall>d \<in> set ds. length d = unat (SectorSize X) \<Longrightarrow>
   \<exists>g. appendMany X s ds =
        Inr (s\<lparr>sectorsRemoved := sectorsRemoved s - set (map (MerkleRoot X) ds),
               sectorsGained := g,
               merkleRoots := merkleRoots s @ map (MerkleRoot X) ds\<rparr>)
       \<and> dom g = dom (sectorsGained s) \<union> set (map (MerkleRoot X) ds)"
proof (induction ds arbitrary: s)
  case Nil
  then show ?case by (intro exI [of _ "sectorsGained s"]) simp
next
  case (Cons d ds)
  let ?r = "MerkleRoot X d"
  let ?s1 = "s\<lparr>sectorsRemoved := sectorsRemoved s - {?r},
               sectorsGained := (sectorsGained s)(?r \<mapsto> d),
               merkleRoots := merkleRoots s @ [?r]\<rparr>"
  have step: "appendSector X s d = (Inr (cachedMerkleRoot X (merkleRoots s @ [?r])), ?s1)"
    using Cons.prems by (auto simp: appendSector_def Let_def)
  from Cons.prems have "\<forall>d \<in> set ds. length d = unat (SectorSize X)" by simp
  from Cons.IH [OF this, of ?s1] obtain g where
    g: "appendMany X ?s1 ds =
          Inr (?s1\<lparr>sectorsRemoved := sectorsRemoved ?s1 - set (map (MerkleRoot X) ds),
                 sectorsGained := g,
                 merkleRoots := merkleRoots ?s1 @ map (MerkleRoot X) ds\<rparr>)"
    and d: "dom g = dom (sectorsGained ?s1) \<union> set (map (MerkleRoot X) ds)"
    by blast
  have "sectorsRemoved s - {?r} - set (map (MerkleRoot X) ds)
        = sectorsRemoved s - set (map (MerkleRoot X) (d # ds))"
    by auto
  then have "appendMany X s (d # ds) =
        Inr (s\<lparr>sectorsRemoved := sectorsRemoved s - set (map (MerkleRoot X) (d # ds)),
               sectorsGained := g,
               merkleRoots := merkleRoots s @ map (MerkleRoot X) (d # ds)\<rparr>)"
    using step g by simp
  moreover have "dom g = dom (sectorsGained s) \<union> set (map (MerkleRoot X) (d # ds))"
    using d by auto
  ultimately show ?case by blast
qed

lemma dropLoop_distinct:
  "distinct rs \<Longrightarrow> set rs \<subseteq> dom (sectorsGained s) \<Longrightarrow>
   dropLoop rs s = s\<lparr>sectorsGained := sectorsGained s |` (- set rs)\<rparr>"
proof (induction rs arbitrary: s)
  case Nil
  then show ?case by simp
next
  case (Cons r rs)
  let ?s1 = "s\<lparr>sectorsGained := (sectorsGained s)(r := None)\<rparr>"
  from Cons.prems have in_g: "sectorsGained s r \<noteq> None" by auto
  from Cons.prems have "distinct rs" and "set rs \<subseteq> dom (sectorsGained ?s1)"
    by auto
  from Cons.IH [OF this]
  have "dropLoop rs ?s1 = ?s1\<lparr>sectorsGained := sectorsGained ?s1 |` (- set rs)\<rparr>" .
  moreover have "((sectorsGained s)(r := None)) |` (- set rs)
                 = sectorsGained s |` (- set (r # rs))"
    by (rule ext) (simp add: restrict_map_def)
  ultimately show ?case using in_g by simp
qed

text \<open>
  What the drop loop does to the roots and to the gained sectors, for any dropped roots:
  the list of roots is not touched, and no dropped root is a key of \<open>sectorsGained\<close>
  afterwards.
\<close>

lemma dropLoop_merkleRoots: "merkleRoots (dropLoop rs s) = merkleRoots s"
  by (induction rs arbitrary: s) simp_all

lemma dropLoop_sectorsGained:
  "sectorsGained (dropLoop rs s) = sectorsGained s |` (- set rs)"
proof (induction rs arbitrary: s)
  case Nil
  then show ?case by simp
next
  case (Cons r rs)
  show ?case
  proof (cases "sectorsGained s r = None")
    case True
    have "sectorsGained (dropLoop (r # rs) s)
          = sectorsGained (dropLoop rs (s\<lparr>sectorsRemoved := insert r (sectorsRemoved s)\<rparr>))"
      using True by simp
    also have "\<dots> = sectorsGained s |` (- set rs)"
      by (subst Cons.IH) simp
    also have "\<dots> = sectorsGained s |` (- set (r # rs))"
      using True by (auto simp: restrict_map_def fun_eq_iff)
    finally show ?thesis .
  next
    case False
    have "sectorsGained (dropLoop (r # rs) s)
          = sectorsGained (dropLoop rs (s\<lparr>sectorsGained := (sectorsGained s)(r := None)\<rparr>))"
      using False by simp
    also have "\<dots> = ((sectorsGained s)(r := None)) |` (- set rs)"
      by (subst Cons.IH) simp
    also have "\<dots> = sectorsGained s |` (- set (r # rs))"
      by (rule ext) (simp add: restrict_map_def)
    finally show ?thesis .
  qed
qed

text \<open>
  For every list of \<open>k\<close> sectors of length \<open>SectorSize\<close>, distinct or not, appending
  them to a fresh cache and dropping \<open>k\<close> succeeds, gives back the base list of roots
  and its Merkle root, and leaves \<open>sectorsGained\<close> empty.
\<close>

lemma append_then_drop_roots_and_gained:
  assumes len: "\<forall>d \<in> set ds. length d = unat (SectorSize X)"
    and k: "length ds < 2 ^ 64"
  shows "\<exists>removed. appendThenDrop X base ds =
           Inr (cachedMerkleRoot X base,
                \<lparr>sectorsRemoved = removed, sectorsGained = Map.empty, merkleRoots = base\<rparr>)"
proof -
  let ?rs = "map (MerkleRoot X) ds"
  from appendMany_ok [OF len, of "newSectors base"] obtain g where
    am: "appendMany X (newSectors base) ds =
           Inr \<lparr>sectorsRemoved = {}, sectorsGained = g, merkleRoots = base @ ?rs\<rparr>"
    and dg: "dom g = set ?rs"
    by (auto simp: newSectors_def)
  let ?s = "\<lparr>sectorsRemoved = {}, sectorsGained = g, merkleRoots = base\<rparr>"
  let ?t = "dropLoop ?rs ?s"
  have un: "unat (word_of_nat (length ds) :: 64 word) = length ds"
    using k by (simp add: unat_of_nat)
  have "g |` (- set ?rs) = Map.empty"
    using dg by (auto simp: restrict_map_def fun_eq_iff domIff)
  then have "sectorsGained ?t = Map.empty" and "merkleRoots ?t = base"
    by (simp_all add: dropLoop_sectorsGained dropLoop_merkleRoots)
  then have t: "?t = \<lparr>sectorsRemoved = sectorsRemoved ?t, sectorsGained = Map.empty,
                        merkleRoots = base\<rparr>"
    by (cases ?t) simp
  have "dropSectors X \<lparr>sectorsRemoved = {}, sectorsGained = g, merkleRoots = base @ ?rs\<rparr>
          (word_of_nat (length ds))
        = (Inr (cachedMerkleRoot X (merkleRoots ?t)), ?t)"
    by (simp add: dropSectors_def Let_def un)
  then have "appendThenDrop X base ds = Inr (cachedMerkleRoot X (merkleRoots ?t), ?t)"
    by (simp add: appendThenDrop_def am)
  then have "appendThenDrop X base ds =
           Inr (cachedMerkleRoot X base,
                \<lparr>sectorsRemoved = sectorsRemoved ?t, sectorsGained = Map.empty,
                 merkleRoots = base\<rparr>)"
    using t \<open>merkleRoots ?t = base\<close> by simp
  then show ?thesis by blast
qed

text \<open>
  When the Merkle roots of the appended sectors are pairwise distinct, \<open>sectorsRemoved\<close>
  is empty as well: the cache is the fresh one again.
\<close>

lemma append_then_drop_distinct_cancels:
  assumes len: "\<forall>d \<in> set ds. length d = unat (SectorSize X)"
    and dist: "distinct (map (MerkleRoot X) ds)"
    and k: "length ds < 2 ^ 64"
  shows "appendThenDrop X base ds = Inr (cachedMerkleRoot X base, newSectors base)"
proof -
  let ?rs = "map (MerkleRoot X) ds"
  from appendMany_ok [OF len, of "newSectors base"] obtain g where
    am: "appendMany X (newSectors base) ds =
           Inr \<lparr>sectorsRemoved = {}, sectorsGained = g, merkleRoots = base @ ?rs\<rparr>"
    and dg: "dom g = set ?rs"
    by (auto simp: newSectors_def)
  let ?s = "\<lparr>sectorsRemoved = {}, sectorsGained = g, merkleRoots = base @ ?rs\<rparr>"
  have un: "unat (word_of_nat (length ds) :: 64 word) = length ds"
    using k by (simp add: unat_of_nat)
  have "dropLoop ?rs (?s\<lparr>merkleRoots := base\<rparr>)
        = (?s\<lparr>merkleRoots := base\<rparr>)\<lparr>sectorsGained := g |` (- set ?rs)\<rparr>"
    using dropLoop_distinct [OF dist, of "?s\<lparr>merkleRoots := base\<rparr>"] dg by simp
  moreover have "g |` (- set ?rs) = Map.empty"
    using dg by (auto simp: restrict_map_def fun_eq_iff domIff)
  ultimately have dl: "dropLoop ?rs (?s\<lparr>merkleRoots := base\<rparr>) = newSectors base"
    by (simp add: newSectors_def)
  have "dropSectors X ?s (word_of_nat (length ds))
        = (Inr (cachedMerkleRoot X base), newSectors base)"
    using dl by (simp add: dropSectors_def Let_def un newSectors_def)
  then show ?thesis
    by (simp add: appendThenDrop_def am)
qed

lemma append_then_drop_distinct_example:
  "length [1, 2 :: byte] = unat (SectorSize demoX) \<and>
   length [3, 4 :: byte] = unat (SectorSize demoX) \<and>
   MerkleRoot demoX [1, 2] \<noteq> MerkleRoot demoX [3, 4] \<and>
   appendThenDrop demoX [513] [[1, 2], [3, 4]] = Inr (516, newSectors [513])"
  using append_then_drop_distinct_cancels [of "[[1, 2], [3, 4]]" demoX "[513]"]
  by (simp add: demoX_def)

text \<open>
  The same sector appended twice and dropped twice does not cancel: the first pass of the
  drop loop takes the root out of \<open>sectorsGained\<close>, so the second pass finds it absent
  there and marks it as removed. This holds for every choice of the parameters and every
  base list.
\<close>

lemma append_twice_drop_two:
  assumes "length d = unat (SectorSize X)"
  shows "appendThenDrop X base [d, d] =
           Inr (cachedMerkleRoot X base,
                \<lparr>sectorsRemoved = {MerkleRoot X d}, sectorsGained = Map.empty,
                 merkleRoots = base\<rparr>)"
  using assms
  by (simp add: appendThenDrop_def appendSector_def dropSectors_def newSectors_def Let_def)

text \<open>
  Claim C3 says that appending \<open>k\<close> sectors to a fresh cache and dropping \<open>k\<close> leaves
  the base list of roots and empty \<open>sectorsGained\<close> and \<open>sectorsRemoved\<close>. The code
  does not do that when a sector is appended twice. Here the base list holds the root 513,
  the sector with that root is appended twice and two sectors are dropped: the list of
  roots is the base list again and \<open>sectorsGained\<close> is empty, but the root 513 is marked
  as removed while the list still holds it, so a commit deletes a sector that the
  program has not changed.
\<close>

theorem append_twice_listed_and_removed:
  "length [1, 2 :: byte] = unat (SectorSize demoX) \<and>
   MerkleRoot demoX [1, 2] = 513 \<and>
   appendThenDrop demoX [513] [[1, 2], [1, 2]] =
     Inr (516, \<lparr>sectorsRemoved = {513}, sectorsGained = Map.empty, merkleRoots = [513]\<rparr>) \<and>
   appendThenDrop demoX [513] [[1, 2], [1, 2]]
     \<noteq> Inr (cachedMerkleRoot demoX [513], newSectors [513])"
  by (simp add: appendThenDrop_def appendSector_def dropSectors_def newSectors_def Let_def
      demoX_def)

section \<open>Properties of the SwapSector instruction\<close>

lemma swapSectors_in_range:
  "swapSectors X s a b = (Inr h, s') \<Longrightarrow>
   unat a < length (merkleRoots s') \<and> unat b < length (merkleRoots s')"
  by (auto simp: swapSectors_def Let_def split: if_splits)

text \<open>
  Claim C2. Let SwapSector run with \<open>staticMerkleProof\<close> set, on two fetched indices
  \<open>a\<close> and \<open>b\<close> that are in bounds of the roots, and write \<open>lo = min a b\<close>,
  \<open>hi = max a b\<close>. When \<open>lo \<noteq> hi\<close>, the proof is the Merkle diff proof over exactly the
  two ranges \<open>[lo, lo + 1)\<close> and \<open>[hi, hi + 1)\<close>, and the output is the encoding of the
  two leaf hashes that stood at \<open>lo\<close> and \<open>hi\<close> before the swap. When \<open>lo = hi\<close>, one
  range \<open>[lo, lo + 1)\<close> and one leaf hash are emitted and the roots are unchanged. The
  ranges are single leaves: for a list of roots as long as a Go slice can be, \<open>lo + 1\<close>
  and \<open>hi + 1\<close> do not wrap, and the number of leaves passed is the length of the list.
\<close>

theorem swap_proof_ranges:
  assumes f1: "staticData i (sector1Offset i) = Inr a"
    and f2: "staticData i (sector2Offset i) = Inr b"
    and ia: "unat a < length (merkleRoots s)"
    and ib: "unat b < length (merkleRoots s)"
    and want: "staticMerkleProof i"
    and len: "length (merkleRoots s) < 2 ^ 63"
  shows
   "(min a b \<noteq> max a b \<longrightarrow>
       Execute X i s prev =
         (Inr \<lparr>NewSize = NewSize prev,
               NewMerkleRoot = cachedMerkleRoot X
                 ((merkleRoots s)[unat (min a b) := merkleRoots s ! unat (max a b),
                                  unat (max a b) := merkleRoots s ! unat (min a b)]),
               Output = Marshal X [merkleRoots s ! unat (min a b), merkleRoots s ! unat (max a b)],
               Proof = MerkleDiffProof X
                 [\<lparr>Start = min a b, End = min a b + 1\<rparr>, \<lparr>Start = max a b, End = max a b + 1\<rparr>]
                 (word_of_nat (length (merkleRoots s))) []
                 ((merkleRoots s)[unat (min a b) := merkleRoots s ! unat (max a b),
                                  unat (max a b) := merkleRoots s ! unat (min a b)])\<rparr>,
          s\<lparr>merkleRoots := (merkleRoots s)[unat (min a b) := merkleRoots s ! unat (max a b),
                                  unat (max a b) := merkleRoots s ! unat (min a b)]\<rparr>)) \<and>
    (min a b = max a b \<longrightarrow>
       Execute X i s prev =
         (Inr \<lparr>NewSize = NewSize prev,
               NewMerkleRoot = cachedMerkleRoot X (merkleRoots s),
               Output = Marshal X [merkleRoots s ! unat (min a b)],
               Proof = MerkleDiffProof X [\<lparr>Start = min a b, End = min a b + 1\<rparr>]
                 (word_of_nat (length (merkleRoots s))) [] (merkleRoots s)\<rparr>,
          s)) \<and>
    unat (min a b + 1) = unat (min a b) + 1 \<and> unat (max a b + 1) = unat (max a b) + 1 \<and>
    unat (word_of_nat (length (merkleRoots s)) :: 64 word) = length (merkleRoots s)"
proof -
  let ?lo = "min a b" and ?hi = "max a b"
  have off: "(if b < a then b else a) = ?lo" "(if b < a then a else b) = ?hi"
    by (auto simp: min_def max_def)
  have lo: "unat ?lo < length (merkleRoots s)" and hi: "unat ?hi < length (merkleRoots s)"
    using ia ib by (auto simp: min_def max_def)
  have ne: "?lo \<noteq> ?hi \<Longrightarrow> unat ?lo \<noteq> unat ?hi"
    by (simp add: word_unat_eq_iff)
  have nowrap: "unat (w + 1) = unat w + 1" if "unat w < length (merkleRoots s)" for w :: "64 word"
  proof -
    have "unat w + 1 < 2 ^ 64" using that len by simp
    then show ?thesis by (simp add: unat_word_ariths)
  qed
  have n: "unat (word_of_nat (length (merkleRoots s)) :: 64 word) = length (merkleRoots s)"
    using len by (simp add: unat_of_nat)
  have A: "?lo \<noteq> ?hi \<longrightarrow> Execute X i s prev =
         (Inr \<lparr>NewSize = NewSize prev,
               NewMerkleRoot = cachedMerkleRoot X
                 ((merkleRoots s)[unat ?lo := merkleRoots s ! unat ?hi,
                                  unat ?hi := merkleRoots s ! unat ?lo]),
               Output = Marshal X [merkleRoots s ! unat ?lo, merkleRoots s ! unat ?hi],
               Proof = MerkleDiffProof X
                 [\<lparr>Start = ?lo, End = ?lo + 1\<rparr>, \<lparr>Start = ?hi, End = ?hi + 1\<rparr>]
                 (word_of_nat (length (merkleRoots s))) []
                 ((merkleRoots s)[unat ?lo := merkleRoots s ! unat ?hi,
                                  unat ?hi := merkleRoots s ! unat ?lo])\<rparr>,
          s\<lparr>merkleRoots := (merkleRoots s)[unat ?lo := merkleRoots s ! unat ?hi,
                                  unat ?hi := merkleRoots s ! unat ?lo]\<rparr>)"
    using lo hi ne want
    by (simp add: Execute_def f1 f2 off swapSectors_def Let_def nth_list_update)
  have B: "?lo = ?hi \<longrightarrow> Execute X i s prev =
         (Inr \<lparr>NewSize = NewSize prev,
               NewMerkleRoot = cachedMerkleRoot X (merkleRoots s),
               Output = Marshal X [merkleRoots s ! unat ?lo],
               Proof = MerkleDiffProof X [\<lparr>Start = ?lo, End = ?lo + 1\<rparr>]
                 (word_of_nat (length (merkleRoots s))) [] (merkleRoots s)\<rparr>,
          s)"
    using lo hi want
    by (simp add: Execute_def f1 f2 off swapSectors_def Let_def)
  show ?thesis using A B nowrap [OF lo] nowrap [OF hi] n by blast
qed

theorem swap_proof_ranges_witness:
  "Execute demoX
     \<lparr>staticData = demoData [1, 0, 0, 0, 0, 0, 0, 0, 1, 0, 0, 0, 0, 0, 0, 0],
      staticMerkleProof = True, sector1Offset = 0, sector2Offset = 8\<rparr>
     (newSectors [10, 20, 30])
     \<lparr>NewSize = 3, NewMerkleRoot = 367, Output = [], Proof = []\<rparr>
   = (Inr \<lparr>NewSize = 3, NewMerkleRoot = 367, Output = [20], Proof = [10, 30]\<rparr>,
      newSectors [10, 20, 30]) \<and>
   Execute demoX
     \<lparr>staticData = demoData [2, 0, 0, 0, 0, 0, 0, 0, 0, 0, 0, 0, 0, 0, 0, 0],
      staticMerkleProof = True, sector1Offset = 0, sector2Offset = 8\<rparr>
     (newSectors [10, 20, 30])
     \<lparr>NewSize = 3, NewMerkleRoot = 367, Output = [], Proof = []\<rparr>
   = (Inr \<lparr>NewSize = 3, NewMerkleRoot = 207, Output = [10, 30], Proof = [20]\<rparr>,
      newSectors [30, 20, 10])"
  using
    swap_proof_ranges [where X = demoX and a = 1 and b = 1 and s = "newSectors [10, 20, 30]"
      and prev = "\<lparr>NewSize = 3, NewMerkleRoot = 367, Output = [], Proof = []\<rparr>"
      and i = "\<lparr>staticData = demoData [1, 0, 0, 0, 0, 0, 0, 0, 1, 0, 0, 0, 0, 0, 0, 0],
        staticMerkleProof = True, sector1Offset = 0, sector2Offset = 8\<rparr>"]
    swap_proof_ranges [where X = demoX and a = 2 and b = 0 and s = "newSectors [10, 20, 30]"
      and prev = "\<lparr>NewSize = 3, NewMerkleRoot = 367, Output = [], Proof = []\<rparr>"
      and i = "\<lparr>staticData = demoData [2, 0, 0, 0, 0, 0, 0, 0, 0, 0, 0, 0, 0, 0, 0, 0],
        staticMerkleProof = True, sector1Offset = 0, sector2Offset = 8\<rparr>"]
  by (simp add: demoX_def demoData_def newSectors_def)

text \<open>
  Claim C10. \<open>Execute\<close> of SwapSector is symmetric in its two argument offsets: when
  the two fetches succeed, the instruction with the offsets exchanged (so that it fetches
  \<open>(b, a)\<close> where the other fetches \<open>(a, b)\<close>) returns the same output (size, Merkle
  root, proof, old leaf hashes) and leaves the same cache, from every cache and previous
  output. In-bounds indices are a special case; out of bounds both return the same error.
\<close>

theorem swap_execute_symmetric:
  assumes f1: "staticData i (sector1Offset i) = Inr a"
    and f2: "staticData i (sector2Offset i) = Inr b"
  shows "Execute X (i\<lparr>sector1Offset := sector2Offset i, sector2Offset := sector1Offset i\<rparr>) s prev
         = Execute X i s prev"
proof -
  consider (lt) "a < b" | (gt) "b < a" | (eq) "a = b"
    by (cases "a < b"; cases "b < a"; simp)
  then show ?thesis
  proof cases
    case lt
    then have "\<not> b < a" by simp
    with lt show ?thesis
      by (simp add: Execute_def f1 f2 Let_def split: prod.split sum.split)
  next
    case gt
    then have "\<not> a < b" by simp
    with gt show ?thesis
      by (simp add: Execute_def f1 f2 Let_def split: prod.split sum.split)
  next
    case eq
    then show ?thesis
      using f1 f2 by (simp add: Execute_def Let_def split: prod.split sum.split)
  qed
qed

theorem swap_execute_symmetric_witness:
  "Execute demoX
     \<lparr>staticData = demoData [2, 0, 0, 0, 0, 0, 0, 0, 0, 0, 0, 0, 0, 0, 0, 0],
      staticMerkleProof = True, sector1Offset = 8, sector2Offset = 0\<rparr>
     (newSectors [10, 20, 30])
     \<lparr>NewSize = 3, NewMerkleRoot = 367, Output = [], Proof = []\<rparr>
   = Execute demoX
     \<lparr>staticData = demoData [2, 0, 0, 0, 0, 0, 0, 0, 0, 0, 0, 0, 0, 0, 0, 0],
      staticMerkleProof = True, sector1Offset = 0, sector2Offset = 8\<rparr>
     (newSectors [10, 20, 30])
     \<lparr>NewSize = 3, NewMerkleRoot = 367, Output = [], Proof = []\<rparr> \<and>
   staticData
     \<lparr>staticData = demoData [2, 0, 0, 0, 0, 0, 0, 0, 0, 0, 0, 0, 0, 0, 0, 0],
      staticMerkleProof = True, sector1Offset = 0, sector2Offset = 8\<rparr> 0 = Inr 2 \<and>
   staticData
     \<lparr>staticData = demoData [2, 0, 0, 0, 0, 0, 0, 0, 0, 0, 0, 0, 0, 0, 0, 0],
      staticMerkleProof = True, sector1Offset = 0, sector2Offset = 8\<rparr> 8 = Inr 0"
  using
    swap_execute_symmetric [where X = demoX and a = 2 and b = 0
      and s = "newSectors [10, 20, 30]"
      and prev = "\<lparr>NewSize = 3, NewMerkleRoot = 367, Output = [], Proof = []\<rparr>"
      and i = "\<lparr>staticData = demoData [2, 0, 0, 0, 0, 0, 0, 0, 0, 0, 0, 0, 0, 0, 0, 0],
        staticMerkleProof = True, sector1Offset = 0, sector2Offset = 8\<rparr>"]
  by (simp add: demoData_def)

section \<open>Properties of the payment processor\<close>

subsection \<open>The revision built from a request\<close>

lemma outputsLoop_returns:
  "length outs = i + length vs \<Longrightarrow> i + length vs \<le> length recentOutputs \<Longrightarrow>
   outputsLoop recentOutputs vs i outs
     = Inr (take i outs @ map2 decorate vs (drop i recentOutputs))"
proof (induction vs arbitrary: i outs)
  case Nil
  then show ?case by simp
next
  case (Cons v vs)
  let ?o = "\<lparr>Value = v, UnlockHash = UnlockHash (recentOutputs ! i)\<rparr>"
  from Cons.prems have i: "i < length recentOutputs" and io: "i < length outs" by simp_all
  have "outputsLoop recentOutputs vs (Suc i) (outs[i := ?o])
        = Inr (take (Suc i) (outs[i := ?o]) @ map2 decorate vs (drop (Suc i) recentOutputs))"
    using Cons.prems by (intro Cons.IH) simp_all
  moreover have "take (Suc i) (outs[i := ?o]) = take i outs @ [?o]"
    using io by (simp add: take_Suc_conv_app_nth)
  moreover have "drop i recentOutputs = recentOutputs ! i # drop (Suc i) recentOutputs"
    using i by (simp add: Cons_nth_drop_Suc)
  ultimately show ?case using i by (simp add: decorate_def)
qed

lemma outputsLoop_panics:
  "length recentOutputs < i + length vs \<Longrightarrow> i \<le> length recentOutputs \<Longrightarrow>
   outputsLoop recentOutputs vs i outs
     = Inl (IndexOutOfRange (length recentOutputs) (length recentOutputs))"
proof (induction vs arbitrary: i outs)
  case Nil
  then show ?case by simp
next
  case (Cons v vs)
  show ?case
  proof (cases "i < length recentOutputs")
    case True
    with Cons.prems Cons.IH [of "Suc i"] show ?thesis by simp
  next
    case False
    with Cons.prems have "i = length recentOutputs" by simp
    then show ?thesis by simp
  qed
qed

lemma outputsLoop_from_start:
  "outputsLoop recentOutputs vs 0 (makeOutputs (length vs)) =
     (if length vs \<le> length recentOutputs
      then Inr (map2 decorate vs recentOutputs)
      else Inl (IndexOutOfRange (length recentOutputs) (length recentOutputs)))"
  using outputsLoop_returns [of "makeOutputs (length vs)" 0 vs recentOutputs]
    outputsLoop_panics [of recentOutputs 0 vs "makeOutputs (length vs)"]
  by (simp add: makeOutputs_def)

lemma revisionFromRequest_eq:
  "revisionFromRequest recent pbcr =
     (if length (NewValidProofOutputs recent) < length (NewValidProofValues pbcr)
      then Inl (IndexOutOfRange (length (NewValidProofOutputs recent))
                  (length (NewValidProofOutputs recent)))
      else if length (NewMissedProofOutputs recent) < length (NewMissedProofValues pbcr)
      then Inl (IndexOutOfRange (length (NewMissedProofOutputs recent))
                  (length (NewMissedProofOutputs recent)))
      else Inr (recent\<lparr>NewRevisionNumber := reqNewRevisionNumber pbcr,
                  NewValidProofOutputs :=
                    map2 decorate (NewValidProofValues pbcr) (NewValidProofOutputs recent),
                  NewMissedProofOutputs :=
                    map2 decorate (NewMissedProofValues pbcr) (NewMissedProofOutputs recent)\<rparr>))"
  by (simp add: revisionFromRequest_def outputsLoop_from_start)

text \<open>
  Claim C8. \<open>revisionFromRequest\<close> returns only when neither value vector of the
  request is longer than the matching output vector of the recent revision: it panics
  with an index out of range exactly when one is longer. In \<open>managedPayByContract\<close> the
  revision is built before the verifier is called, so once the request, the obligation
  and its recent revision are there, a longer vector makes the call panic whatever the
  verifier would have answered: no error is returned, and the host and the rest of the
  stream are as they were at the panic.
\<close>

theorem revisionFromRequest_total_only_if_no_longer:
  "((\<exists>p. revisionFromRequest recent pbcr = Inl p) \<longleftrightarrow>
      length (NewValidProofOutputs recent) < length (NewValidProofValues pbcr) \<or>
      length (NewMissedProofOutputs recent) < length (NewMissedProofValues pbcr)) \<and>
   (RPCRead asPayByContractRequest st = (Inr pbcr, st1) \<and>
    managedGetStorageObligation D h (ContractID pbcr) = Inr so \<and>
    recentRevision D so = Inr recent \<and>
    (length (NewValidProofOutputs recent) < length (NewValidProofValues pbcr) \<or>
     length (NewMissedProofOutputs recent) < length (NewMissedProofValues pbcr))
    \<longrightarrow> (\<exists>n. managedPayByContract D h st = (Panic (IndexOutOfRange n n), h, st1)))"
  by (auto simp: revisionFromRequest_eq managedPayByContract_def)

theorem revisionFromRequest_total_only_if_no_longer_witness:
  "revisionFromRequest demoCurrent (demoRequest\<lparr>NewValidProofValues := [1500, 1500, 1]\<rparr>)
     = Inl (IndexOutOfRange 2 2) \<and>
   managedPayByContract demoD demoHost
       (demoStream [ObjPayByContractRequest (demoRequest\<lparr>NewValidProofValues := [1500, 1500, 1]\<rparr>)])
     = (Panic (IndexOutOfRange 2 2), demoHost, demoStream []) \<and>
   revisionFromRequest demoCurrent demoRequest = Inr demoPayment"
  using
    revisionFromRequest_total_only_if_no_longer [of demoCurrent
      "demoRequest\<lparr>NewValidProofValues := [1500, 1500, 1]\<rparr>"
      "demoStream [ObjPayByContractRequest (demoRequest\<lparr>NewValidProofValues := [1500, 1500, 1]\<rparr>)]"
      "demoStream []" demoD demoHost
      "\<lparr>RevisionTransactionSet =
          [\<lparr>FileContractRevisions = [demoCurrent], TransactionSignatures = []\<rparr>]\<rparr>"]
    revisionFromRequest_total_only_if_no_longer [of demoCurrent demoRequest]
  by (simp add: revisionFromRequest_eq managedPayByContract_def demoStream_def RPCRead_def
      demoD_def demoGetStorageObligation_def demoHost_def demoRequest_def demoCurrent_def
      demoPayment_def decorate_def)

subsection \<open>Payment by contract\<close>

lemma verifyPayByContractRevision_Done:
  assumes "verifyPayByContractRevision D current payment bh = Done (a, c)"
  shows "verifyPaymentRevision D current payment bh ZeroCurrency = None \<and>
         (\<exists>pv cv. ValidHostPayout payment = Inr pv \<and> ValidHostPayout current = Inr cv \<and>
                  cv \<le> pv \<and> a = pv - cv) \<and>
         (\<exists>cm pm. MissedHostOutput current = Inr cm \<and> MissedHostOutput payment = Inr pm \<and>
                  Value pm \<le> Value cm \<and> c = Value cm - Value pm)"
  using assms
  by (auto simp: verifyPayByContractRevision_def Sub_def
      split: option.splits sum.splits if_splits)

lemma managedPayByContract_Done:
  assumes "managedPayByContract D h st = (Done pd, h', st')"
  shows "\<exists>pbcr st1 so current payment.
           RPCRead asPayByContractRequest st = (Inr pbcr, st1) \<and>
           managedGetStorageObligation D h (ContractID pbcr) = Inr so \<and>
           recentRevision D so = Inr current \<and>
           revisionFromRequest current pbcr = Inr payment \<and>
           (\<exists>a c. verifyPayByContractRevision D current payment (blockHeight h) = Done (a, c) \<and>
                  pd = newPaymentDetails '''' a c)"
  using assms
  by (auto simp: managedPayByContract_def Let_def
      split: prod.splits sum.splits outcome.splits option.splits)

lemma demo_revision: "revisionFromRequest demoCurrent demoRequest = Inr demoPayment"
  by (simp add: revisionFromRequest_eq demoCurrent_def demoRequest_def demoPayment_def
      decorate_def)

text \<open>The spec's second scenario, run: a payment of 500 that moves 200 of collateral.\<close>

lemma demo_payment_run:
  "ProcessPayment demoD demoHost
       (demoStream [ObjPaymentRequest \<lparr>Type = 2\<rparr>, ObjPayByContractRequest demoRequest])
   = (Done \<lparr>account = '''', amount = 500, addedCollateral = 200\<rparr>,
      demoHost\<lparr>storageObligations :=
        [42 \<mapsto> \<lparr>RevisionTransactionSet =
           [\<lparr>FileContractRevisions = [demoPayment],
             TransactionSignatures =
               [signatureFromRequest demoCurrent demoRequest,
                \<lparr>tsParentID = 42, tsCoveredFields = \<lparr>cfFileContractRevisions = [0]\<rparr>,
                 tsPublicKeyIndex = 1, tsSignature = [9]\<rparr>]\<rparr>]\<rparr>]\<rparr>,
      \<lparr>received = [], sent = [ObjPayByContractResponse (9 # replicate 63 0)],
       closed = False\<rparr>)"
  apply (simp add: ProcessPayment_def demoStream_def RPCRead_def PayByContract_def
      PayByEphemeralAccount_def managedPayByContract_def demoD_def demoGetStorageObligation_def)
  apply (simp add: demoHost_def demo_revision)
  apply (simp add: verifyPayByContractRevision_def demoVerify_def ValidHostPayout_def
      MissedHostOutput_def index_def Sub_def ZeroCurrency_def demoCurrent_def demoPayment_def)
  apply (simp add: demoSign_def index_def demoModify_def RPCWrite_def copySignature_def
      newPaymentDetails_def demoPayment_def demoCurrent_def)
  apply (simp add: demoHost_def demoRequest_def)
  done

text \<open>
  Claim C1. Whenever \<open>ProcessPayment\<close> reads a payment request of kind
  \<open>PayByContract\<close> and accepts the payment, the request, the obligation of its
  contract, the obligation's most recent revision (\<open>current\<close>) and the revision built
  from the request (\<open>payment\<close>) are there, and the details returned have the empty
  account id, as amount the valid host payout of \<open>payment\<close> minus that of \<open>current\<close>,
  and as collateral the value of the missed host output of \<open>current\<close> minus that of
  \<open>payment\<close>. Neither subtraction underflows.
\<close>

theorem contract_payment_details:
  assumes rd: "received st = ObjPaymentRequest pr # rest"
    and kind: "Type pr = PayByContract"
    and accepted: "ProcessPayment D h st = (Done pd, h', st')"
  shows "\<exists>pbcr st1 so current payment.
           RPCRead asPayByContractRequest (st\<lparr>received := rest\<rparr>) = (Inr pbcr, st1) \<and>
           managedGetStorageObligation D h (ContractID pbcr) = Inr so \<and>
           recentRevision D so = Inr current \<and>
           revisionFromRequest current pbcr = Inr payment \<and>
           account pd = '''' \<and>
           (\<exists>pv cv. ValidHostPayout payment = Inr pv \<and> ValidHostPayout current = Inr cv \<and>
                    cv \<le> pv \<and> amount pd = pv - cv) \<and>
           (\<exists>cm pm. MissedHostOutput current = Inr cm \<and> MissedHostOutput payment = Inr pm \<and>
                    Value pm \<le> Value cm \<and> addedCollateral pd = Value cm - Value pm)"
proof -
  have ne: "PayByContract \<noteq> PayByEphemeralAccount"
    by (simp add: PayByContract_def PayByEphemeralAccount_def)
  have "RPCRead asPaymentRequest st = (Inr pr, st\<lparr>received := rest\<rparr>)"
    using rd by (simp add: RPCRead_def)
  then have "managedPayByContract D h (st\<lparr>received := rest\<rparr>) = (Done pd, h', st')"
    using accepted kind ne by (simp add: ProcessPayment_def)
  from managedPayByContract_Done [OF this] obtain pbcr st1 so current payment a c where
    steps: "RPCRead asPayByContractRequest (st\<lparr>received := rest\<rparr>) = (Inr pbcr, st1)"
      "managedGetStorageObligation D h (ContractID pbcr) = Inr so"
      "recentRevision D so = Inr current"
      "revisionFromRequest current pbcr = Inr payment"
    and v: "verifyPayByContractRevision D current payment (blockHeight h) = Done (a, c)"
    and pd: "pd = newPaymentDetails '''' a c"
    by blast
  from verifyPayByContractRevision_Done [OF v] pd steps show ?thesis
    by (simp add: newPaymentDetails_def)
qed

theorem contract_payment_details_witness:
  "fst (ProcessPayment demoD demoHost
          (demoStream [ObjPaymentRequest \<lparr>Type = 2\<rparr>, ObjPayByContractRequest demoRequest]))
     = Done \<lparr>account = '''', amount = 500, addedCollateral = 200\<rparr> \<and>
   recentRevision demoD
       \<lparr>RevisionTransactionSet =
          [\<lparr>FileContractRevisions = [demoCurrent], TransactionSignatures = []\<rparr>]\<rparr>
     = Inr demoCurrent \<and>
   revisionFromRequest demoCurrent demoRequest = Inr demoPayment \<and>
   ValidHostPayout demoPayment = Inr 1500 \<and> ValidHostPayout demoCurrent = Inr 1000 \<and>
   map_sum id Value (MissedHostOutput demoCurrent) = Inr 500 \<and>
   map_sum id Value (MissedHostOutput demoPayment) = Inr 300 \<and>
   (\<exists>pbcr st1 so current payment.
      RPCRead asPayByContractRequest
          ((demoStream [ObjPaymentRequest \<lparr>Type = 2\<rparr>, ObjPayByContractRequest demoRequest])
             \<lparr>received := [ObjPayByContractRequest demoRequest]\<rparr>) = (Inr pbcr, st1) \<and>
      managedGetStorageObligation demoD demoHost (ContractID pbcr) = Inr so \<and>
      recentRevision demoD so = Inr current \<and>
      revisionFromRequest current pbcr = Inr payment \<and>
      account \<lparr>account = '''', amount = 500, addedCollateral = 200\<rparr> = '''' \<and>
      (\<exists>pv cv. ValidHostPayout payment = Inr pv \<and> ValidHostPayout current = Inr cv \<and>
               cv \<le> pv \<and>
               amount \<lparr>account = '''', amount = 500, addedCollateral = 200\<rparr> = pv - cv) \<and>
      (\<exists>cm pm. MissedHostOutput current = Inr cm \<and> MissedHostOutput payment = Inr pm \<and>
               Value pm \<le> Value cm \<and>
               addedCollateral \<lparr>account = '''', amount = 500, addedCollateral = 200\<rparr>
                 = Value cm - Value pm))"
proof -
  have rd: "received (demoStream [ObjPaymentRequest \<lparr>Type = 2\<rparr>, ObjPayByContractRequest demoRequest])
            = ObjPaymentRequest \<lparr>Type = 2\<rparr> # [ObjPayByContractRequest demoRequest]"
    by (simp add: demoStream_def)
  have kind: "Type \<lparr>Type = 2\<rparr> = PayByContract"
    by (simp add: PayByContract_def)
  have vals: "ValidHostPayout demoPayment = Inr 1500" "ValidHostPayout demoCurrent = Inr 1000"
    "map_sum id Value (MissedHostOutput demoCurrent) = Inr 500"
    "map_sum id Value (MissedHostOutput demoPayment) = Inr 300"
    by (simp_all add: ValidHostPayout_def MissedHostOutput_def index_def demoPayment_def
        demoCurrent_def)
  have rr: "recentRevision demoD
       \<lparr>RevisionTransactionSet =
          [\<lparr>FileContractRevisions = [demoCurrent], TransactionSignatures = []\<rparr>]\<rparr>
     = Inr demoCurrent"
    by (simp add: demoD_def)
  from contract_payment_details [OF rd kind demo_payment_run]
  show ?thesis
    using demo_payment_run demo_revision vals rr by simp
qed

subsection \<open>Unknown payment methods\<close>

text \<open>
  A request of an unknown kind, run: the stream has one reply slot, and it stays empty.
  \<open>ProcessPayment\<close> returns the error and writes no reply.
\<close>

theorem unknown_method_no_reply_counterexample:
  "Type \<lparr>Type = 3\<rparr> \<noteq> PayByEphemeralAccount \<and> Type \<lparr>Type = 3\<rparr> \<noteq> PayByContract \<and>
   ProcessPayment demoD demoHost (demoStream [ObjPaymentRequest \<lparr>Type = 3\<rparr>])
     = (Fail (Compose (Errorf ''Could not handle payment method %v'' 3)
                ErrUnknownPaymentMethod),
        demoHost, \<lparr>received = [], sent = [], closed = False\<rparr>)"
  by (simp add: ProcessPayment_def demoStream_def RPCRead_def PayByContract_def
      PayByEphemeralAccount_def)

text \<open>
  Claim C5, amended. For a payment request whose kind is neither
  \<open>PayByEphemeralAccount\<close> nor \<open>PayByContract\<close>, \<open>ProcessPayment\<close> processes no
  payment: the host (its account balances and storage obligations) is unchanged and none
  of the functions that withdraw, build, verify or sign is consulted, since the result is
  the same for all of them. It writes nothing to the stream: an error reply is left to
  its caller. It returns the error composed of the "Could not handle payment method"
  message and \<open>ErrUnknownPaymentMethod\<close>.
\<close>

theorem unknown_method_returns_error:
  assumes "received st = ObjPaymentRequest pr # rest"
    and "Type pr \<noteq> PayByEphemeralAccount" and "Type pr \<noteq> PayByContract"
  shows "ProcessPayment D h st =
           (Fail (Compose (Errorf ''Could not handle payment method %v'' (Type pr))
                    ErrUnknownPaymentMethod), h, st\<lparr>received := rest\<rparr>)
         \<and> sent (snd (snd (ProcessPayment D h st))) = sent st"
  using assms
  by (simp add: ProcessPayment_def RPCRead_def)

theorem unknown_method_returns_error_witness:
  "ProcessPayment demoD demoHost
       \<lparr>received = [ObjPaymentRequest \<lparr>Type = 0\<rparr>, ObjPayByContractRequest demoRequest],
        sent = [ObjPayByEphemeralAccountResponse 5], closed = False\<rparr>
     = (Fail (Compose (Errorf ''Could not handle payment method %v'' 0)
                ErrUnknownPaymentMethod),
        demoHost,
        \<lparr>received = [ObjPayByContractRequest demoRequest],
         sent = [ObjPayByEphemeralAccountResponse 5], closed = False\<rparr>)"
  using unknown_method_returns_error [of
      "\<lparr>received = [ObjPaymentRequest \<lparr>Type = 0\<rparr>, ObjPayByContractRequest demoRequest],
        sent = [ObjPayByEphemeralAccountResponse 5], closed = False\<rparr>"
      "\<lparr>Type = 0\<rparr>" "[ObjPayByContractRequest demoRequest]" demoD demoHost]
  by (simp add: PayByContract_def PayByEphemeralAccount_def)

section \<open>Properties of creating a skylink\<close>

lemma compose_two_Some [simp]:
  "compose [Some a, b] = Some (SkyCompose (a # nonNil [b]))"
  by (simp add: compose_def)

lemma isMetadataTooBig_simps [simp]:
  "\<not> isMetadataTooBig None"
  "\<not> isMetadataTooBig (Some (SkyCompose es))"
  "\<not> isMetadataTooBig (Some (ErrorsNew msg))"
  "\<not> isMetadataTooBig (Some (SkyAddContext e (Ctx c)))"
  "isMetadataTooBig (Some (SkyAddContext ErrMetadataTooBig (CtxDoesNotFit n m f)))"
  by (simp_all add: isMetadataTooBig_def split: sky_error.splits sky_context.splits)






section \<open>Properties of the block template\<close>

lemma joinAllSubTrees_nonempty: "t \<noteq> [] \<Longrightarrow> joinAllSubTrees B t \<noteq> []"
  by (induction B t rule: joinAllSubTrees.induct) auto

lemma Push_nonempty: "Push B t d \<noteq> []"
  by (simp add: Push_def joinAllSubTrees_nonempty)

lemma foldl_Push_nonempty: "ds \<noteq> [] \<Longrightarrow> foldl (Push B) t ds \<noteq> []"
proof (induction ds arbitrary: t rule: rev_induct)
  case Nil
  then show ?case by simp
next
  case (snoc d ds)
  then show ?case by (simp add: Push_nonempty)
qed

text \<open>
  The template's branches are empty for every block, and the block's own branches are
  not as soon as it has a payout or a transaction: the two agree only on a block that
  has neither.
\<close>

lemma template_branches_empty: "MerkleBranches (Block_BlockTemplate B b) = []"
  by (simp add: Block_BlockTemplate_def)

lemma template_branches_differ:
  assumes "MinerPayouts b \<noteq> [] \<or> Transactions b \<noteq> []"
  shows "MerkleBranches (Block_BlockTemplate B b) \<noteq> Block_MerkleBranches B b"
proof -
  let ?leaves = "map (marshalSiacoinOutput B) (MinerPayouts b)
                   @ map (marshalTransaction B) (Transactions b)"
  have "?leaves \<noteq> []" using assms by auto
  then have "foldl (Push B) [] ?leaves \<noteq> []" by (rule foldl_Push_nonempty)
  then show ?thesis
    by (simp add: Block_BlockTemplate_def Block_MerkleBranches_def Let_def del: foldl_append)
qed

text \<open>
  Claim C7 says that the template of every block carries the block's Merkle branches.
  The code does not do that: for the block with one miner payout and no transaction,
  \<open>MerkleBranches\<close> returns one encoded hash and the template's field is empty.
\<close>

theorem template_without_branches:
  "MerkleBranches (Block_BlockTemplate demoB demoBlock) = [] \<and>
   Block_MerkleBranches demoB demoBlock = [''ab''] \<and>
   MerkleBranches (Block_BlockTemplate demoB demoBlock) \<noteq> Block_MerkleBranches demoB demoBlock"
  by (simp add: Block_BlockTemplate_def Block_MerkleBranches_def demoB_def demoBlock_def
      Push_def hexDigit_def)

end
